theory Spec2Isabelle
  imports Main
begin

section \<open>The agent client of flyctl (package agent)\<close>

text \<open>
  The client talks to a local daemon over a socket. Every value the program obtains
  from its surroundings (the outcome of a dial, of a frame write, of a frame read, of a
  close, and whether the caller's context was cancelled meanwhile) is read from a
  \<open>world\<close>, and every effect is appended to the world's trace, so that the
  functions below are the Go functions with the state passed explicitly.
\<close>

subsection \<open>Durations and contexts\<close>

text \<open>\<open>time.Duration\<close> is an int64 count of nanoseconds; no arithmetic of the
  package comes near the bounds, so the count is an \<open>int\<close>.\<close>

type_synonym Duration = int

definition Nanosecond :: Duration where
  "Nanosecond = 1"

definition Microsecond :: Duration where
  "Microsecond = 1000 * Nanosecond"

definition Millisecond :: Duration where
  "Millisecond = 1000 * Microsecond"

definition Second :: Duration where
  "Second = 1000 * Millisecond"

definition timeout :: Duration where
  "timeout = 2 * Second"

definition cycle :: Duration where
  "cycle = Second div 10"

text \<open>A context is what the caller built it from: \<open>context.Background()\<close>,
  \<open>context.WithCancel\<close>, \<open>context.WithTimeout\<close>. Whether it is done at some
  moment is not a property of this value but of the run (see \<open>parent_done\<close> below).\<close>

datatype Context =
    ContextBackground
  | WithCancel Context
  | WithTimeout Context Duration

text \<open>The tightest timeout a context carries, if any.\<close>

fun ctx_timeout :: "Context \<Rightarrow> Duration option" where
  "ctx_timeout ContextBackground = None"
| "ctx_timeout (WithCancel p) = ctx_timeout p"
| "ctx_timeout (WithTimeout p d) =
     (case ctx_timeout p of None \<Rightarrow> Some d | Some d' \<Rightarrow> Some (min d d'))"

subsection \<open>Errors\<close>

text \<open>
  Go's error values, by where they are made: the two errors of package context, an error
  of the network or of the frame codec (an opaque message), \<open>errors.New\<close>, the error
  of \<open>hasPrefix\<close> (\<open>fmt.Errorf("invalid prefix: %.<n>q", data)\<close>, kept as its two
  arguments), a JSON syntax error, \<open>errors.Wrap\<close>, and the two classified errors of
  the package. A nil error is \<open>None\<close> of \<open>error option\<close>.
\<close>

datatype error =
    Canceled
  | DeadlineExceeded
  | OpError string
  | ErrorString string
  | InvalidPrefix nat string
  | SyntaxError string
  | WithMessage error string
  | TunnelError string
  | HostNotFoundError string

text \<open>Modelled from the spec: \<open>IsTunnelError\<close> and \<open>IsHostNotFoundError\<close> are
  functions of the package that are not in the source file; the spec gives the
  classification tags \<open>TunnelError\<close> and \<open>HostNotFoundError\<close>, and a nil error
  carries neither.\<close>

fun IsTunnelError :: "error option \<Rightarrow> bool" where
  "IsTunnelError (Some (TunnelError m)) = True"
| "IsTunnelError e = False"

fun IsHostNotFoundError :: "error option \<Rightarrow> bool" where
  "IsHostNotFoundError (Some (HostNotFoundError m)) = True"
| "IsHostNotFoundError e = False"

subsection \<open>Formatting integers\<close>

text \<open>\<open>strconv.FormatInt(i, 10)\<close>: the decimal digits, with a minus sign for a
  negative number.\<close>

fun decimal :: "nat \<Rightarrow> string" where
  "decimal n =
     (if n < 10 then [''0123456789'' ! n]
      else decimal (n div 10) @ [''0123456789'' ! (n mod 10)])"

declare decimal.simps [simp del]

definition FormatInt :: "int \<Rightarrow> string" where
  "FormatInt i = (if i < 0 then CHR ''-'' # decimal (nat (- i)) else decimal (nat i))"

subsection \<open>Data\<close>

text \<open>\<open>semver.Version\<close>: \<open>EQ\<close> is \<open>Compare = 0\<close>, which looks at the three numbers
  and the pre-release identifiers and ignores the build metadata.\<close>

datatype PRVersion = PRNum nat | PRStr string

record Version =
  Major :: nat
  Minor :: nat
  Patch :: nat
  Pre :: "PRVersion list"
  Build :: "string list"

definition Version_EQ :: "Version \<Rightarrow> Version \<Rightarrow> bool" where
  "Version_EQ v v' =
     (Major v = Major v' \<and> Minor v = Minor v' \<and> Patch v = Patch v' \<and> Pre v = Pre v')"

fun PRVersion_String :: "PRVersion \<Rightarrow> string" where
  "PRVersion_String (PRNum n) = decimal n"
| "PRVersion_String (PRStr s) = s"

fun join_dot :: "string list \<Rightarrow> string" where
  "join_dot [] = []"
| "join_dot [s] = s"
| "join_dot (s # t # ss) = s @ ''.'' @ join_dot (t # ss)"

definition Version_String :: "Version \<Rightarrow> string" where
  "Version_String v =
     decimal (Major v) @ ''.'' @ decimal (Minor v) @ ''.'' @ decimal (Patch v)
     @ (if Pre v = [] then [] else ''-'' @ join_dot (map PRVersion_String (Pre v)))
     @ (if Build v = [] then [] else ''+'' @ join_dot (Build v))"

record PingResponse =
  PID :: int
  Version :: Version
  Background :: bool

definition zero_PingResponse :: PingResponse where
  "zero_PingResponse =
     \<lparr>PID = 0,
      Version = \<lparr>Major = 0, Minor = 0, Patch = 0, Pre = [], Build = []\<rparr>,
      Background = False\<rparr>"

text \<open>The WireGuard state and the tunnel configuration are opaque to the client: blobs
  behind pointers (\<open>None\<close> is nil).\<close>

type_synonym WireGuardState_blob = string
type_synonym Config_blob = string

record EstablishResponse =
  WireGuardState :: "WireGuardState_blob option"
  TunnelConfig :: "Config_blob option"

record Organization =
  Slug :: string

record Client =
  network :: string
  address :: string

record dialer =
  dialer_slug :: string
  dialer_timeout :: Duration
  dialer_state :: "WireGuardState_blob option"
  dialer_config :: "Config_blob option"
  dialer_client :: Client

text \<open>A Go call either returns or panics (a nil pointer dereference).\<close>

datatype 'a go_result = Returns 'a | Panics string

subsection \<open>The world: the daemon's behaviour and the trace of effects\<close>

datatype Conn = Conn nat

fun conn_id :: "Conn \<Rightarrow> nat" where
  "conn_id (Conn n) = n"

text \<open>
  What happens on the n-th connection the process opens: the outcome of the dial, of
  \<open>proto.Write\<close>, of \<open>proto.Read\<close> and of \<open>Close\<close>, and \<open>parent_done\<close>: the value of
  the caller's \<open>ctx.Err()\<close> at the moment the executor's worker calls \<open>cancel()\<close>
  (\<open>None\<close>: the caller's context was not done by then, so no external cancellation
  occurred during the call).
\<close>

record conn_script =
  dial_res :: "error option"
  write_res :: "error option"
  read_res :: "error + string"
  close_res :: "error option"
  parent_done :: "error option"

datatype event =
    EvDial Context string string nat
  | EvWatch Context nat
  | EvWrite nat "string list"
  | EvRead nat
  | EvClose nat
  | EvWarn string
  | EvDebug string
  | EvSleep Duration
  | EvPause Context Duration
  | EvPrune
  | EvStartDaemon Context

record world =
  daemon :: "nat \<Rightarrow> conn_script"
  next_conn :: nat
  trace :: "event list"
  prune_res :: "error option"
  start_res :: "Client option \<times> error option"
  buildinfo_Version :: Version
  PathToSocket :: string

definition log_event :: "event \<Rightarrow> world \<Rightarrow> world" where
  "log_event e w = w\<lparr>trace := trace w @ [e]\<rparr>"

text \<open>The collaborators outside the file: the frame codec (\<open>proto.Write\<close>,
  \<open>proto.Read\<close>), \<open>net.Conn.Close\<close>, the terminal, \<open>time.Sleep\<close>, \<open>pause.For\<close>,
  \<open>wireguard.PruneInvalidPeers\<close> and \<open>StartDaemon\<close>. Each records its call and
  answers from the world. The API client that \<open>Establish\<close> hands on to
  \<open>PruneInvalidPeers\<close> is used nowhere else and is left out.\<close>

definition proto_Write :: "Conn \<Rightarrow> string \<Rightarrow> string list \<Rightarrow> world \<Rightarrow> error option \<times> world" where
  "proto_Write conn cmd args w =
     (write_res (daemon w (conn_id conn)), log_event (EvWrite (conn_id conn) (cmd # args)) w)"

definition proto_Read :: "Conn \<Rightarrow> world \<Rightarrow> (error + string) \<times> world" where
  "proto_Read conn w = (read_res (daemon w (conn_id conn)), log_event (EvRead (conn_id conn)) w)"

definition Conn_Close :: "Conn \<Rightarrow> world \<Rightarrow> error option \<times> world" where
  "Conn_Close conn w = (close_res (daemon w (conn_id conn)), log_event (EvClose (conn_id conn)) w)"

definition terminal_Warn :: "string \<Rightarrow> world \<Rightarrow> world" where
  "terminal_Warn msg w = log_event (EvWarn msg) w"

definition terminal_Debug :: "string \<Rightarrow> world \<Rightarrow> world" where
  "terminal_Debug msg w = log_event (EvDebug msg) w"

definition time_Sleep :: "Duration \<Rightarrow> world \<Rightarrow> world" where
  "time_Sleep d w = log_event (EvSleep d) w"

definition pause_For :: "Context \<Rightarrow> Duration \<Rightarrow> world \<Rightarrow> world" where
  "pause_For ctx d w = log_event (EvPause ctx d) w"

definition PruneInvalidPeers :: "Context \<Rightarrow> world \<Rightarrow> error option \<times> world" where
  "PruneInvalidPeers ctx w = (prune_res w, log_event EvPrune w)"

definition StartDaemon :: "Context \<Rightarrow> world \<Rightarrow> (Client option \<times> error option) \<times> world" where
  "StartDaemon ctx w = (start_res w, log_event (EvStartDaemon ctx) w)"

text \<open>
  \<open>json.Unmarshal(data, v)\<close> decodes into the value \<open>v\<close> points to and returns an
  error. It first checks that the data is valid JSON, so on data whose first byte after
  white space cannot begin a JSON value it fails and leaves the value as it was. What it
  does otherwise is the parameter \<open>dec\<close>, from the data and the value before to the
  error and the value after (which may be partly decoded when there is an error).
\<close>

definition json_isSpace :: "char \<Rightarrow> bool" where
  "json_isSpace ch = (ch = CHR '' '' \<or> ch = CHR 0x09 \<or> ch = CHR 0x0D \<or> ch = CHR 0x0A)"

definition json_begins_value :: "char \<Rightarrow> bool" where
  "json_begins_value ch =
     (ch = CHR ''{'' \<or> ch = CHR ''['' \<or> ch = CHR 0x22 \<or> ch = CHR ''-''
      \<or> ch \<in> set ''0123456789'' \<or> ch = CHR ''t'' \<or> ch = CHR ''f'' \<or> ch = CHR ''n'')"

definition json_Unmarshal ::
  "(string \<Rightarrow> 'a \<Rightarrow> error option \<times> 'a) \<Rightarrow> string \<Rightarrow> 'a \<Rightarrow> error option \<times> 'a" where
  "json_Unmarshal dec data v =
     (case dropWhile json_isSpace data of
        [] \<Rightarrow> (Some (SyntaxError ''unexpected end of JSON input''), v)
      | ch # rest \<Rightarrow>
          if json_begins_value ch then dec data v
          else (Some (SyntaxError ''invalid character looking for beginning of value''), v))"

subsection \<open>Dialling and the cancellable executor\<close>

definition Client_dialContext :: "Client \<Rightarrow> Context \<Rightarrow> world \<Rightarrow> (error + Conn) \<times> world" where
  "Client_dialContext c ctx w =
     (let n = next_conn w;
          w1 = log_event (EvDial ctx (network c) (address c) n) (w\<lparr>next_conn := Suc n\<rparr>)
      in case dial_res (daemon w n) of
           Some e \<Rightarrow> (Inl e, w1)
         | None \<Rightarrow> (Inr (Conn n), w1))"

definition Client_dial :: "Client \<Rightarrow> world \<Rightarrow> (error + Conn) \<times> world" where
  "Client_dial c w = Client_dialContext c (WithTimeout ContextBackground timeout) w"

text \<open>
  \<open>Client.do\<close>. The context \<open>ctx\<close> is derived from the caller's by
  \<open>context.WithCancel\<close>. The watcher waits for \<open>ctx\<close> to be done (the event
  \<open>EvWatch\<close>) and closes the connection; the worker runs \<open>fn\<close> and then cancels
  \<open>ctx\<close>; both are joined. The function \<open>fn\<close> sets variables of its caller: their values are the first
  component of its result, \<open>r0\<close> being their values before the call. After the join the
  derived context is always done: its error is the caller's context's error when that
  one was done first, and \<open>Canceled\<close> (from the worker's own \<open>cancel()\<close>) otherwise.
  The close is recorded after the events of \<open>fn\<close>; when the caller's context is
  cancelled while \<open>fn\<close> runs, the close happens in between and shows in what the world
  answers to \<open>fn\<close>.
\<close>

definition ctx_Err_after :: "error option \<Rightarrow> error option" where
  "ctx_Err_after parent_err = (case parent_err of Some e \<Rightarrow> Some e | None \<Rightarrow> Some Canceled)"

definition Client_do ::
  "Client \<Rightarrow> Context \<Rightarrow> 'r \<Rightarrow> (Conn \<Rightarrow> world \<Rightarrow> ('r \<times> error option) \<times> world)
    \<Rightarrow> world \<Rightarrow> ('r \<times> error option) \<times> world" where
  "Client_do c parent r0 fn w =
     (case Client_dialContext c parent w of
        (Inl e, w1) \<Rightarrow> ((r0, Some e), w1)
      | (Inr conn, w1) \<Rightarrow>
          (let ctx = WithCancel parent
           in case fn conn (log_event (EvWatch ctx (conn_id conn)) w1) of
                ((r, err), w2) \<Rightarrow>
                  (case Conn_Close conn w2 of
                     (closeError, w3) \<Rightarrow>
                       (let ctx_Err = ctx_Err_after (parent_done (daemon w (conn_id conn)));
                            err1 = (if err \<noteq> None \<and> ctx_Err \<noteq> None then ctx_Err else err);
                            err2 = (if err1 = None then closeError else err1)
                        in ((r, err2), w3)))))"

subsection \<open>The verbs\<close>

definition Client_Kill :: "Client \<Rightarrow> Context \<Rightarrow> world \<Rightarrow> error option \<times> world" where
  "Client_Kill c ctx w =
     (case Client_do c ctx ()
             (\<lambda>conn w0. case proto_Write conn ''kill'' [] w0 of (err, w1) \<Rightarrow> (((), err), w1)) w
      of ((u, err), w') \<Rightarrow> (err, w'))"

definition hasPrefix :: "string \<Rightarrow> string \<Rightarrow> error option" where
  "hasPrefix data prefix =
     (if \<not> (take (length prefix) data = prefix) then Some (InvalidPrefix (length prefix) data)
      else None)"

text \<open>\<open>Client.Ping\<close>. The named result \<open>res\<close> starts as the zero value, and
  \<open>json.Unmarshal\<close> decodes into it; it is returned as it then is, error or not.\<close>

definition Client_Ping ::
  "(string \<Rightarrow> PingResponse \<Rightarrow> error option \<times> PingResponse) \<Rightarrow> Client \<Rightarrow> Context \<Rightarrow> world
    \<Rightarrow> (PingResponse \<times> error option) \<times> world" where
  "Client_Ping dec c ctx w =
     Client_do c ctx zero_PingResponse
       (\<lambda>conn w0.
          case proto_Write conn ''ping'' [] w0 of
            (Some e, w1) \<Rightarrow> ((zero_PingResponse, Some e), w1)
          | (None, w1) \<Rightarrow>
              (case proto_Read conn w1 of
                 (Inl e, w2) \<Rightarrow> ((zero_PingResponse, Some e), w2)
               | (Inr data, w2) \<Rightarrow>
                   (case hasPrefix data ''pong '' of
                      Some e \<Rightarrow> ((zero_PingResponse, Some e), w2)
                    | None \<Rightarrow>
                        (case json_Unmarshal dec (drop 5 data) zero_PingResponse of
                           (err, res) \<Rightarrow> ((res, err), w2))))) w"

text \<open>\<open>Client.Establish\<close>. The data handed to \<open>json.Unmarshal\<close> is the whole
  payload, as in the source (line 274), not the payload after the prefix; it decodes
  into a fresh \<open>EstablishResponse\<close>, and \<open>res\<close> is set back to nil when it fails.\<close>

definition Client_Establish ::
  "(string \<Rightarrow> EstablishResponse \<Rightarrow> error option \<times> EstablishResponse) \<Rightarrow> Client \<Rightarrow> Context
    \<Rightarrow> string \<Rightarrow> world
    \<Rightarrow> (EstablishResponse option \<times> error option) \<times> world" where
  "Client_Establish dec c ctx slug w =
     Client_do c ctx None
       (\<lambda>conn w0.
          case proto_Write conn ''establish'' [slug] w0 of
            (Some e, w1) \<Rightarrow> ((None, Some e), w1)
          | (None, w1) \<Rightarrow>
              (case proto_Read conn w1 of
                 (Inl e, w2) \<Rightarrow> ((None, Some e), w2)
               | (Inr data, w2) \<Rightarrow>
                   (case hasPrefix data ''ok '' of
                      Some e \<Rightarrow> ((None, Some (ErrorString data)), w2)
                    | None \<Rightarrow>
                        (case json_Unmarshal dec data
                                \<lparr>WireGuardState = None, TunnelConfig = None\<rparr> of
                           (Some e, res) \<Rightarrow> ((None, Some e), w2)
                         | (None, res) \<Rightarrow> ((Some res, None), w2))))) w"

definition Client_Probe :: "Client \<Rightarrow> Context \<Rightarrow> string \<Rightarrow> world \<Rightarrow> error option \<times> world" where
  "Client_Probe c ctx slug w =
     (case Client_do c ctx ()
             (\<lambda>conn w0.
                case proto_Write conn ''probe'' [slug] w0 of
                  (Some e, w1) \<Rightarrow> (((), Some e), w1)
                | (None, w1) \<Rightarrow>
                    (case proto_Read conn w1 of
                       (Inl e, w2) \<Rightarrow> (((), Some e), w2)
                     | (Inr data, w2) \<Rightarrow>
                         if data \<noteq> ''ok'' then (((), Some (ErrorString data)), w2)
                         else (((), None), w2))) w
      of ((u, err), w') \<Rightarrow> (err, w'))"

definition Client_Resolve ::
  "Client \<Rightarrow> Context \<Rightarrow> string \<Rightarrow> string \<Rightarrow> world \<Rightarrow> (string \<times> error option) \<times> world" where
  "Client_Resolve c ctx slug host w =
     Client_do c ctx []
       (\<lambda>conn w0.
          case proto_Write conn ''resolve'' [slug, host] w0 of
            (Some e, w1) \<Rightarrow> (([], Some e), w1)
          | (None, w1) \<Rightarrow>
              (case proto_Read conn w1 of
                 (Inl e, w2) \<Rightarrow> (([], Some e), w2)
               | (Inr data, w2) \<Rightarrow>
                   (case hasPrefix data ''ok '' of
                      Some e \<Rightarrow> (([], Some e), w2)
                    | None \<Rightarrow> ((drop 3 data, None), w2)))) w"

text \<open>\<open>Client.Instances\<close>; the type \<open>Instances\<close> is not in the file, so the value is
  of any type, \<open>zero\<close> being the zero value the named result starts from;
  \<open>json.Unmarshal\<close> decodes into it and it is returned as it then is.\<close>

definition Client_Instances ::
  "(string \<Rightarrow> 'i \<Rightarrow> error option \<times> 'i) \<Rightarrow> 'i \<Rightarrow> Client \<Rightarrow> Context \<Rightarrow> Organization \<Rightarrow> string
    \<Rightarrow> world \<Rightarrow> ('i \<times> error option) \<times> world" where
  "Client_Instances dec zero c ctx org app w =
     Client_do c ctx zero
       (\<lambda>conn w0.
          case proto_Write conn ''instances'' [Slug org, app] w0 of
            (Some e, w1) \<Rightarrow> ((zero, Some e), w1)
          | (None, w1) \<Rightarrow>
              (case proto_Read conn w1 of
                 (Inl e, w2) \<Rightarrow> ((zero, Some e), w2)
               | (Inr data, w2) \<Rightarrow>
                   (case hasPrefix data ''ok '' of
                      Some e \<Rightarrow> ((zero, Some e), w2)
                    | None \<Rightarrow>
                        (case json_Unmarshal dec (drop 3 data) zero of
                           (err, res) \<Rightarrow> ((res, err), w2))))) w"

subsection \<open>The readiness loops\<close>

text \<open>
  \<open>Client.WaitForTunnel\<close> and \<open>Client.WaitForHost\<close> loop without a bound, so each is
  a partial function: \<open>None\<close> is the run that never returns. The loop is written over
  the call it repeats; the method is the loop over \<open>Client.Probe\<close>, respectively
  \<open>Client.Resolve\<close> with its address dropped.
\<close>

partial_function (option) WaitForTunnel_loop ::
  "(world \<Rightarrow> error option \<times> world) \<Rightarrow> Context \<Rightarrow> world \<Rightarrow> (error option \<times> world) option" where
  "WaitForTunnel_loop probe ctx w =
     (case probe w of
        (err, w1) \<Rightarrow>
          if \<not> IsTunnelError err then Some (err, w1)
          else WaitForTunnel_loop probe ctx (pause_For ctx cycle w1))"

definition Client_WaitForTunnel ::
  "Client \<Rightarrow> Context \<Rightarrow> Organization \<Rightarrow> world \<Rightarrow> (error option \<times> world) option" where
  "Client_WaitForTunnel c ctx org w = WaitForTunnel_loop (Client_Probe c ctx (Slug org)) ctx w"

partial_function (option) WaitForHost_loop ::
  "(world \<Rightarrow> error option \<times> world) \<Rightarrow> Context \<Rightarrow> world \<Rightarrow> (error option \<times> world) option" where
  "WaitForHost_loop resolve ctx w =
     (case resolve w of
        (err, w1) \<Rightarrow>
          if \<not> IsTunnelError err \<and> \<not> IsHostNotFoundError err then Some (err, w1)
          else WaitForHost_loop resolve ctx (pause_For ctx cycle w1))"

definition Client_WaitForHost ::
  "Client \<Rightarrow> Context \<Rightarrow> Organization \<Rightarrow> string \<Rightarrow> world \<Rightarrow> (error option \<times> world) option" where
  "Client_WaitForHost c ctx org host w =
     WaitForHost_loop
       (\<lambda>w0. case Client_Resolve c ctx (Slug org) host w0 of ((addr, err), w1) \<Rightarrow> (err, w1))
       ctx w"

subsection \<open>The tunnel dialer\<close>

text \<open>
  \<open>Client.Dialer\<close>: the call of \<open>Establish\<close>, then the branch on its two results
  (lines 372 to 381), which is \<open>Dialer_of\<close>. The branch reads \<open>er.WireGuardState\<close>
  and \<open>er.TunnelConfig\<close>, which panics when \<open>er\<close> is nil. The struct literal names
  four of the five fields; \<open>timeout\<close> keeps its zero value.
\<close>

definition Dialer_of ::
  "Client \<Rightarrow> Organization \<Rightarrow> EstablishResponse option \<times> error option
    \<Rightarrow> (dialer option \<times> error option) go_result" where
  "Dialer_of c org res =
     (case res of
        (er, err) \<Rightarrow>
          if err \<noteq> None then
            (case er of
               None \<Rightarrow> Panics ''invalid memory address or nil pointer dereference''
             | Some r \<Rightarrow>
                 Returns
                   (Some \<lparr>dialer_slug = Slug org, dialer_timeout = 0,
                          dialer_state = WireGuardState r, dialer_config = TunnelConfig r,
                          dialer_client = c\<rparr>,
                    err))
          else Returns (None, err))"

definition Client_Dialer ::
  "(string \<Rightarrow> EstablishResponse \<Rightarrow> error option \<times> EstablishResponse) \<Rightarrow> Client \<Rightarrow> Context
    \<Rightarrow> Organization \<Rightarrow> world
    \<Rightarrow> (dialer option \<times> error option) go_result \<times> world" where
  "Client_Dialer dec c ctx org w =
     (case Client_Establish dec c ctx (Slug org) w of
        (res, w1) \<Rightarrow> (Dialer_of c org res, w1))"

text \<open>
  \<open>dialer.DialContext\<close>. \<open>mapError\<close> is a function of the package that is not in the
  file: it is the parameter \<open>mapError\<close>, from an error, the slug and the address to the
  classified error. The deferred function closes the connection and returns nil in its
  place when the error is not nil.
\<close>

definition dialer_DialContext ::
  "(error \<Rightarrow> string \<Rightarrow> string \<Rightarrow> error) \<Rightarrow> dialer \<Rightarrow> Context \<Rightarrow> string \<Rightarrow> string \<Rightarrow> world
    \<Rightarrow> (Conn option \<times> error option) \<times> world" where
  "dialer_DialContext mapError d ctx netw addr w =
     (case Client_dialContext (dialer_client d) ctx w of
        (Inl e, w1) \<Rightarrow> ((None, Some e), w1)
      | (Inr conn, w1) \<Rightarrow>
          (case
             (case proto_Write conn ''connect''
                     [dialer_slug d, addr, FormatInt (dialer_timeout d)] w1 of
                (Some e, w2) \<Rightarrow> (Some e, w2)
              | (None, w2) \<Rightarrow>
                  (case proto_Read conn w2 of
                     (Inl e, w3) \<Rightarrow> (Some e, w3)
                   | (Inr data, w3) \<Rightarrow>
                       if data \<noteq> ''ok''
                       then (Some (mapError (ErrorString data) (dialer_slug d) addr), w3)
                       else (None, w3)))
           of
             (err, w4) \<Rightarrow>
               if err \<noteq> None then
                 (case Conn_Close conn w4 of (ce, w5) \<Rightarrow> ((None, err), w5))
               else ((Some conn, err), w4)))"

subsection \<open>The lifecycle negotiator\<close>

definition newClient ::
  "(string \<Rightarrow> PingResponse \<Rightarrow> error option \<times> PingResponse) \<Rightarrow> Context \<Rightarrow> string \<Rightarrow> string \<Rightarrow> world
    \<Rightarrow> (Client option \<times> error option) \<times> world" where
  "newClient dec ctx netw addr w =
     (let client = \<lparr>network = netw, address = addr\<rparr>
      in case Client_Ping dec client ctx w of
           ((res, err), w1) \<Rightarrow>
             if err \<noteq> None then ((None, err), w1) else ((Some client, err), w1))"

definition DefaultClient ::
  "(string \<Rightarrow> PingResponse \<Rightarrow> error option \<times> PingResponse) \<Rightarrow> Context \<Rightarrow> world
    \<Rightarrow> (Client option \<times> error option) \<times> world" where
  "DefaultClient dec ctx w = newClient dec ctx ''unix'' (PathToSocket w) w"

definition version_msg :: "Version \<Rightarrow> Version \<Rightarrow> string" where
  "version_msg mine theirs =
     ''flyctl version '' @ Version_String mine @ '' does not match agent version ''
     @ Version_String theirs"

text \<open>\<open>Establish\<close> (the function of the package, not the method of the client).
  When \<open>DefaultClient\<close> returns no error its client is not nil.\<close>

definition Establish ::
  "(string \<Rightarrow> PingResponse \<Rightarrow> error option \<times> PingResponse) \<Rightarrow> Context \<Rightarrow> world
    \<Rightarrow> (Client option \<times> error option) \<times> world" where
  "Establish dec ctx w =
     (case PruneInvalidPeers ctx w of
        (Some e, w1) \<Rightarrow> ((None, Some e), w1)
      | (None, w1) \<Rightarrow>
          (case DefaultClient dec ctx w1 of
             ((Some c, None), w2) \<Rightarrow>
               (case Client_Ping dec c ctx w2 of
                  ((resp, None), w3) \<Rightarrow>
                    if Version_EQ (buildinfo_Version w3) (Version resp) then ((Some c, None), w3)
                    else
                      (let msg = version_msg (buildinfo_Version w3) (Version resp)
                       in if \<not> Background resp then ((Some c, None), terminal_Warn msg w3)
                          else
                            (case Client_Kill c ctx
                                    (terminal_Debug ''stopping agent'' (terminal_Debug msg w3)) of
                               (Some e, w4) \<Rightarrow>
                                 ((None, Some (WithMessage e ''kill failed'')), terminal_Warn msg w4)
                             | (None, w4) \<Rightarrow>
                                 StartDaemon ctx (time_Sleep (1 * Second) w4)))
                | ((resp, Some e), w3) \<Rightarrow> StartDaemon ctx w3)
           | ((c, err), w2) \<Rightarrow> StartDaemon ctx w2))"

subsection \<open>Observations on a trace\<close>

text \<open>The contexts under which connections were dialled, the contexts a watcher of
  the executor waited on, and the frames that were written, in order.\<close>

fun dial_contexts :: "event list \<Rightarrow> Context list" where
  "dial_contexts [] = []"
| "dial_contexts (EvDial ctx nw ad n # es) = ctx # dial_contexts es"
| "dial_contexts (e # es) = dial_contexts es"

fun watch_contexts :: "event list \<Rightarrow> Context list" where
  "watch_contexts [] = []"
| "watch_contexts (EvWatch ctx n # es) = ctx # watch_contexts es"
| "watch_contexts (e # es) = watch_contexts es"

fun frames :: "event list \<Rightarrow> string list list" where
  "frames [] = []"
| "frames (EvWrite n f # es) = f # frames es"
| "frames (e # es) = frames es"

text \<open>The world in which a readiness loop makes its call number \<open>n\<close> (counted from
  0): the calls before it were each followed by \<open>pause.For(ctx, cycle)\<close>.\<close>

fun wait_world :: "(world \<Rightarrow> error option \<times> world) \<Rightarrow> Context \<Rightarrow> world \<Rightarrow> nat \<Rightarrow> world" where
  "wait_world call ctx w 0 = w"
| "wait_world call ctx w (Suc n) = wait_world call ctx (pause_For ctx cycle (snd (call w))) n"



subsection \<open>Scenarios\<close>

text \<open>
  Concrete surroundings for the scenarios below: a daemon stub that accepts every
  connection and replies with one payload, a client, two versions, decoders that accept
  any JSON text and decode it to a fixed value, daemons whose replies to successive
  connections follow the scripted sequences of the specification, and two stand-ins for
  \<open>mapError\<close>.
\<close>

definition script_reply :: "string \<Rightarrow> conn_script" where
  "script_reply payload =
     \<lparr>dial_res = None, write_res = None, read_res = Inr payload, close_res = None,
      parent_done = None\<rparr>"

definition version_1 :: Version where
  "version_1 = \<lparr>Major = 0, Minor = 0, Patch = 1, Pre = [], Build = []\<rparr>"

definition version_2 :: Version where
  "version_2 = \<lparr>Major = 0, Minor = 0, Patch = 2, Pre = [], Build = []\<rparr>"

definition client_0 :: Client where
  "client_0 = \<lparr>network = ''unix'', address = ''/tmp/agent.sock''\<rparr>"

definition org_1 :: Organization where
  "org_1 = \<lparr>Slug = ''org1''\<rparr>"

definition stub_world :: "(nat \<Rightarrow> conn_script) \<Rightarrow> world" where
  "stub_world d =
     \<lparr>daemon = d, next_conn = 0, trace = [], prune_res = None,
      start_res = (Some client_0, None), buildinfo_Version = version_1,
      PathToSocket = ''/tmp/agent.sock''\<rparr>"

definition ping_reply ::
  "PingResponse \<Rightarrow> string \<Rightarrow> PingResponse \<Rightarrow> error option \<times> PingResponse" where
  "ping_reply resp data v = (None, resp)"

definition establish_reply ::
  "EstablishResponse \<Rightarrow> string \<Rightarrow> EstablishResponse \<Rightarrow> error option \<times> EstablishResponse" where
  "establish_reply resp data v = (None, resp)"

definition tunnel_1 :: EstablishResponse where
  "tunnel_1 = \<lparr>WireGuardState = Some ''state'', TunnelConfig = Some ''config''\<rparr>"

definition kill_refused :: "nat \<Rightarrow> conn_script" where
  "kill_refused n =
     (if n = 2 then (script_reply ''pong {}'')\<lparr>dial_res := Some (OpError ''connection refused'')\<rparr>
      else script_reply ''pong {}'')"



definition mapError_stub :: "error \<Rightarrow> string \<Rightarrow> string \<Rightarrow> error" where
  "mapError_stub e slug addr =
     (case e of
        ErrorString m \<Rightarrow> if m = ''tunnel unavailable'' then TunnelError m else e
      | e' \<Rightarrow> e)"

definition mapError_all :: "error \<Rightarrow> string \<Rightarrow> string \<Rightarrow> error" where
  "mapError_all e slug addr = TunnelError ''classified''"

definition dialer_1 :: dialer where
  "dialer_1 =
     \<lparr>dialer_slug = ''org1'', dialer_timeout = 0, dialer_state = Some ''state'',
      dialer_config = Some ''config'', dialer_client = client_0\<rparr>"

text \<open>What a scenario observes of a run: the values returned, the number of connections
  opened so far, and the trace.\<close>

definition observe :: "'a \<times> world \<Rightarrow> 'a \<times> nat \<times> event list" where
  "observe p = (fst p, next_conn (snd p), trace (snd p))"

definition ping_same :: PingResponse where
  "ping_same = \<lparr>PID = 7, Version = version_1, Background = True\<rparr>"

definition ping_foreground :: PingResponse where
  "ping_foreground = \<lparr>PID = 7, Version = version_2, Background = False\<rparr>"

definition ping_background :: PingResponse where
  "ping_background = \<lparr>PID = 7, Version = version_2, Background = True\<rparr>"

definition mismatch_msg :: string where
  "mismatch_msg = ''flyctl version 0.0.1 does not match agent version 0.0.2''"

section \<open>Properties\<close>

subsection \<open>Auxiliary facts\<close>

lemmas io_defs =
  Client_dialContext_def proto_Write_def proto_Read_def Conn_Close_def log_event_def
  ctx_Err_after_def

lemmas stub_defs =
  stub_world_def script_reply_def client_0_def org_1_def version_1_def version_2_def
  ping_reply_def establish_reply_def tunnel_1_def

lemmas verb_defs =
  Client_Ping_def Client_Kill_def Client_Probe_def Client_Resolve_def Client_Establish_def
  Client_do_def hasPrefix_def json_Unmarshal_def json_isSpace_def json_begins_value_def

lemmas duration_defs =
  timeout_def cycle_def Second_def Millisecond_def Microsecond_def Nanosecond_def

lemmas split_all = option.splits prod.splits sum.splits if_splits

lemma dial_contexts_append: "dial_contexts (xs @ ys) = dial_contexts xs @ dial_contexts ys"
  by (induction xs rule: dial_contexts.induct) simp_all

lemma watch_contexts_append: "watch_contexts (xs @ ys) = watch_contexts xs @ watch_contexts ys"
  by (induction xs rule: watch_contexts.induct) simp_all

lemma frames_append: "frames (xs @ ys) = frames xs @ frames ys"
  by (induction xs rule: frames.induct) simp_all

lemma snd_drop_unit: "snd (case p of ((u, err), w') \<Rightarrow> (err, w')) = snd p"
  by (simp split: prod.splits)

text \<open>The executor dials once, under the context it was given, whatever \<open>fn\<close> does on
  the connection (as long as \<open>fn\<close> itself dials nothing).\<close>

lemma do_dial_contexts:
  assumes "\<And>conn w0. dial_contexts (trace (snd (fn conn w0))) = dial_contexts (trace w0)"
  shows "dial_contexts (trace (snd (Client_do c ctx r0 fn w))) = dial_contexts (trace w) @ [ctx]"
proof (cases "dial_res (daemon w (next_conn w))")
  case (Some e)
  then show ?thesis
    by (simp add: Client_do_def io_defs Let_def dial_contexts_append)
next
  case None
  let ?w1 = "log_event (EvWatch (WithCancel ctx) (next_conn w))
               (log_event (EvDial ctx (network c) (address c) (next_conn w))
                  (w\<lparr>next_conn := Suc (next_conn w)\<rparr>))"
  have "dial_contexts (trace (snd (fn (Conn (next_conn w)) ?w1))) = dial_contexts (trace ?w1)"
    by (rule assms)
  with None show ?thesis
    by (auto simp: Client_do_def io_defs Let_def dial_contexts_append split: prod.splits)
qed

text \<open>When the dial succeeds, the executor's watcher waits on one context, derived from
  the caller's by \<open>WithCancel\<close>; when the dial fails there is no watcher.\<close>

lemma do_watch_contexts:
  assumes "\<And>conn w0. watch_contexts (trace (snd (fn conn w0))) = watch_contexts (trace w0)"
  shows "watch_contexts (trace (snd (Client_do c ctx r0 fn w)))
         = watch_contexts (trace w)
           @ (if dial_res (daemon w (next_conn w)) = None then [WithCancel ctx] else [])"
proof (cases "dial_res (daemon w (next_conn w))")
  case (Some e)
  then show ?thesis
    by (simp add: Client_do_def io_defs Let_def watch_contexts_append)
next
  case None
  let ?w1 = "log_event (EvWatch (WithCancel ctx) (next_conn w))
               (log_event (EvDial ctx (network c) (address c) (next_conn w))
                  (w\<lparr>next_conn := Suc (next_conn w)\<rparr>))"
  have "watch_contexts (trace (snd (fn (Conn (next_conn w)) ?w1))) = watch_contexts (trace ?w1)"
    by (rule assms)
  with None show ?thesis
    by (auto simp: Client_do_def io_defs Let_def watch_contexts_append split: prod.splits)
qed

text \<open>A successful \<open>Ping\<close> wrote one frame, \<open>ping\<close>; a successful \<open>Kill\<close> wrote one
  frame, \<open>kill\<close>.\<close>

lemma Ping_ok_frames:
  "Client_Ping dec c ctx w = ((resp, None), w') \<Longrightarrow>
   frames (trace w') = frames (trace w) @ [[''ping'']]"
  by (auto simp: Client_Ping_def Client_do_def io_defs Let_def frames_append split: split_all)

lemma Kill_ok_frames:
  "Client_Kill c ctx w = (None, w') \<Longrightarrow> frames (trace w') = frames (trace w) @ [[''kill'']]"
  by (auto simp: Client_Kill_def Client_do_def io_defs Let_def frames_append split: split_all)

lemma DefaultClient_ok_frames:
  "DefaultClient dec ctx w = ((Some c, None), w') \<Longrightarrow>
   frames (trace w') = frames (trace w) @ [[''ping'']]"
  by (auto simp: DefaultClient_def newClient_def Let_def dest: Ping_ok_frames split: split_all)

text \<open>One turn of each readiness loop.\<close>

lemma WaitForTunnel_loop_stop:
  "probe w = (err, w1) \<Longrightarrow> \<not> IsTunnelError err \<Longrightarrow>
   WaitForTunnel_loop probe ctx w = Some (err, w1)"
  by (subst WaitForTunnel_loop.simps) simp

lemma WaitForTunnel_loop_retry:
  "probe w = (err, w1) \<Longrightarrow> IsTunnelError err \<Longrightarrow>
   WaitForTunnel_loop probe ctx w = WaitForTunnel_loop probe ctx (pause_For ctx cycle w1)"
  by (subst WaitForTunnel_loop.simps) simp

lemma WaitForHost_loop_stop:
  "resolve w = (err, w1) \<Longrightarrow> \<not> IsTunnelError err \<Longrightarrow> \<not> IsHostNotFoundError err \<Longrightarrow>
   WaitForHost_loop resolve ctx w = Some (err, w1)"
  by (subst WaitForHost_loop.simps) simp

lemma WaitForHost_loop_retry:
  "resolve w = (err, w1) \<Longrightarrow> IsTunnelError err \<or> IsHostNotFoundError err \<Longrightarrow>
   WaitForHost_loop resolve ctx w = WaitForHost_loop resolve ctx (pause_For ctx cycle w1)"
  by (subst WaitForHost_loop.simps) auto







lemma FormatInt_0: "FormatInt 0 = ''0''"
  by (simp add: FormatInt_def decimal.simps)


subsection \<open>The executor\<close>

text \<open>
  C2. When \<open>fn\<close> returns an error and no external cancellation occurred, \<open>do\<close> should
  return that error verbatim. It does not: after the join the derived context is
  always done (the worker cancelled it), so the test \<open>ctx.Err() != nil\<close> always holds
  and the error of \<open>fn\<close> is replaced. Here the daemon answers a probe with
  \<open>tunnel unavailable\<close>, nothing is cancelled from outside, and \<open>Probe\<close> returns
  \<open>context.Canceled\<close> instead of the error with that text.
\<close>

theorem C2_worker_error_replaced:
  "fst (Client_Probe client_0 ContextBackground ''org1''
          (stub_world (\<lambda>n. script_reply ''tunnel unavailable'')))
   = Some Canceled"
  by (simp add: Client_Probe_def Client_do_def io_defs stub_defs)

text \<open>
  C9. When the connection was opened and \<open>fn\<close> completes with a nil error, \<open>do\<close>
  returns what \<open>fn\<close> produced, and its error is the error of the watcher's close of the
  connection (nil when the close succeeds), whatever the state of the caller's context:
  never a cancellation error put in its place. When \<open>fn\<close> returns an error of its own,
  the error of the close is not surfaced.
\<close>

theorem C9_do_success_keeps_result:
  "Client_dialContext c parent w = (Inr conn, w1) \<Longrightarrow>
   (fn conn (log_event (EvWatch (WithCancel parent) (conn_id conn)) w1) = ((r, None), w2) \<longrightarrow>
      Client_do c parent r0 fn w =
        ((r, close_res (daemon w2 (conn_id conn))), log_event (EvClose (conn_id conn)) w2))
   \<and> (fn conn (log_event (EvWatch (WithCancel parent) (conn_id conn)) w1) = ((r, Some e), w2) \<longrightarrow>
      Client_do c parent r0 fn w =
        ((r, ctx_Err_after (parent_done (daemon w (conn_id conn)))),
         log_event (EvClose (conn_id conn)) w2))"
  by (auto simp: Client_do_def Conn_Close_def ctx_Err_after_def Let_def split: option.splits)

theorem C9_do_success_keeps_result_witness:
  "fst (Client_do client_0 (WithTimeout ContextBackground timeout) (0::nat)
          (\<lambda>conn w0. ((7, None), w0))
          (stub_world (\<lambda>n. (script_reply ''ok'')\<lparr>parent_done := Some DeadlineExceeded\<rparr>)))
     = (7, None)
   \<and> fst (Client_do client_0 ContextBackground (0::nat)
          (\<lambda>conn w0. ((7, Some (OpError ''broken pipe'')), w0))
          (stub_world (\<lambda>n. (script_reply ''ok'')\<lparr>close_res := Some (OpError ''already closed'')\<rparr>)))
     = (7, Some Canceled)"
proof -
  let ?wa = "stub_world (\<lambda>n. (script_reply ''ok'')\<lparr>parent_done := Some DeadlineExceeded\<rparr>)"
  let ?wb = "stub_world (\<lambda>n. (script_reply ''ok'')\<lparr>close_res := Some (OpError ''already closed'')\<rparr>)"
  let ?ctx = "WithTimeout ContextBackground timeout"
  let ?fa = "\<lambda>(conn::Conn) (w0::world). (((7::nat), None :: error option), w0)"
  let ?fb = "\<lambda>(conn::Conn) (w0::world). (((7::nat), Some (OpError ''broken pipe'')), w0)"
  have da: "Client_dialContext client_0 ?ctx ?wa
            = (Inr (Conn 0), snd (Client_dialContext client_0 ?ctx ?wa))"
    by (simp add: Client_dialContext_def Let_def stub_defs)
  have db: "Client_dialContext client_0 ContextBackground ?wb
            = (Inr (Conn 0), snd (Client_dialContext client_0 ContextBackground ?wb))"
    by (simp add: Client_dialContext_def Let_def stub_defs)
  have a: "fst (Client_do client_0 ?ctx 0 ?fa ?wa) = (7, None)"
    using C9_do_success_keeps_result [OF da, of ?fa 7 _ 0]
    by (simp add: Client_dialContext_def Let_def log_event_def stub_defs)
  have b: "fst (Client_do client_0 ContextBackground 0 ?fb ?wb) = (7, Some Canceled)"
    using C9_do_success_keeps_result [OF db, of ?fb 7 _ 0 "OpError ''broken pipe''"]
    by (simp add: Client_dialContext_def Let_def log_event_def ctx_Err_after_def stub_defs)
  from a b show ?thesis by simp
qed

subsection \<open>The tunnel dialer's handshake\<close>

text \<open>
  C6 as the specification states it fails on two points. With a \<open>mapError\<close> that
  classifies every error it is given, a refused dial returns the error of the dial as
  it is, and closes nothing (no connection was opened); a failed write returns the error
  of the write as it is, not classified, and closes the connection.
\<close>

theorem C6_raw_error_counterexample:
  "observe (dialer_DialContext mapError_all dialer_1 ContextBackground ''tcp'' ''10.0.0.5:80''
     (stub_world (\<lambda>n. (script_reply ''ok'')\<lparr>dial_res := Some (OpError ''connection refused'')\<rparr>)))
   = ((None, Some (OpError ''connection refused'')), 1,
      [EvDial ContextBackground ''unix'' ''/tmp/agent.sock'' 0])
   \<and> observe (dialer_DialContext mapError_all dialer_1 ContextBackground ''tcp'' ''10.0.0.5:80''
        (stub_world (\<lambda>n. (script_reply ''ok'')\<lparr>write_res := Some (OpError ''broken pipe'')\<rparr>)))
      = ((None, Some (OpError ''broken pipe'')), 1,
         [EvDial ContextBackground ''unix'' ''/tmp/agent.sock'' 0,
          EvWrite 0 [''connect'', ''org1'', ''10.0.0.5:80'', ''0''], EvClose 0])"
  by (simp add: dialer_DialContext_def io_defs Let_def observe_def stub_defs dialer_1_def
        FormatInt_0)

text \<open>
  C6, as the code has it. \<open>dialer.DialContext\<close> opens exactly one connection. When the
  daemon replies \<open>ok\<close> to the \<open>connect\<close> frame, it returns that very connection with a
  nil error and the connection is not closed. When the dial fails it returns a nil
  connection and the error of the dial as it is, and nothing is closed. When the write or
  the read fails it closes the connection and returns a nil connection and the error of
  the write or of the read as it is. When the payload is not \<open>ok\<close> it closes the
  connection and returns a nil connection and \<open>mapError\<close> of the payload, the
  classified error.
\<close>

theorem C6_DialContext_same_connection:
  "let n = next_conn w;
       s = daemon w n;
       c = dialer_client d;
       frame = [''connect'', dialer_slug d, addr, FormatInt (dialer_timeout d)];
       opened = trace w @ [EvDial ctx (network c) (address c) n];
       res = dialer_DialContext mapError d ctx netw addr w
   in next_conn (snd res) = Suc n
      \<and> (dial_res s = None \<and> write_res s = None \<and> read_res s = Inr ''ok'' \<longrightarrow>
            fst res = (Some (Conn n), None)
            \<and> trace (snd res) = opened @ [EvWrite n frame, EvRead n])
      \<and> (dial_res s = Some e \<longrightarrow>
            fst res = (None, Some e) \<and> trace (snd res) = opened)
      \<and> (dial_res s = None \<and> write_res s = Some e \<longrightarrow>
            fst res = (None, Some e)
            \<and> trace (snd res) = opened @ [EvWrite n frame, EvClose n])
      \<and> (dial_res s = None \<and> write_res s = None \<and> read_res s = Inl e \<longrightarrow>
            fst res = (None, Some e)
            \<and> trace (snd res) = opened @ [EvWrite n frame, EvRead n, EvClose n])
      \<and> (dial_res s = None \<and> write_res s = None \<and> read_res s = Inr data \<and> data \<noteq> ''ok'' \<longrightarrow>
            fst res = (None, Some (mapError (ErrorString data) (dialer_slug d) addr))
            \<and> trace (snd res) = opened @ [EvWrite n frame, EvRead n, EvClose n])"
  by (auto simp: dialer_DialContext_def io_defs Let_def split: split_all)

theorem C6_DialContext_same_connection_witness:
  "observe (dialer_DialContext mapError_stub dialer_1 ContextBackground ''tcp'' ''10.0.0.5:80''
     (stub_world (\<lambda>n. script_reply ''ok'')))
   = ((Some (Conn 0), None), 1,
      [EvDial ContextBackground ''unix'' ''/tmp/agent.sock'' 0,
       EvWrite 0 [''connect'', ''org1'', ''10.0.0.5:80'', ''0''], EvRead 0])
   \<and> observe (dialer_DialContext mapError_stub dialer_1 ContextBackground ''tcp'' ''10.0.0.5:80''
        (stub_world (\<lambda>n. (script_reply ''ok'')\<lparr>dial_res := Some (OpError ''connection refused'')\<rparr>)))
      = ((None, Some (OpError ''connection refused'')), 1,
         [EvDial ContextBackground ''unix'' ''/tmp/agent.sock'' 0])
   \<and> observe (dialer_DialContext mapError_stub dialer_1 ContextBackground ''tcp'' ''10.0.0.5:80''
        (stub_world (\<lambda>n. (script_reply ''ok'')\<lparr>write_res := Some (OpError ''broken pipe'')\<rparr>)))
      = ((None, Some (OpError ''broken pipe'')), 1,
         [EvDial ContextBackground ''unix'' ''/tmp/agent.sock'' 0,
          EvWrite 0 [''connect'', ''org1'', ''10.0.0.5:80'', ''0''], EvClose 0])
   \<and> observe (dialer_DialContext mapError_stub dialer_1 ContextBackground ''tcp'' ''10.0.0.5:80''
        (stub_world (\<lambda>n. (script_reply ''ok'')\<lparr>read_res := Inl (OpError ''EOF'')\<rparr>)))
      = ((None, Some (OpError ''EOF'')), 1,
         [EvDial ContextBackground ''unix'' ''/tmp/agent.sock'' 0,
          EvWrite 0 [''connect'', ''org1'', ''10.0.0.5:80'', ''0''], EvRead 0, EvClose 0])
   \<and> observe (dialer_DialContext mapError_stub dialer_1 ContextBackground ''tcp'' ''10.0.0.5:80''
        (stub_world (\<lambda>n. script_reply ''tunnel unavailable'')))
      = ((None, Some (TunnelError ''tunnel unavailable'')), 1,
         [EvDial ContextBackground ''unix'' ''/tmp/agent.sock'' 0,
          EvWrite 0 [''connect'', ''org1'', ''10.0.0.5:80'', ''0''], EvRead 0, EvClose 0])"
proof -
  note sc = observe_def Let_def stub_defs dialer_1_def mapError_stub_def FormatInt_0
  have 1: "observe (dialer_DialContext mapError_stub dialer_1 ContextBackground ''tcp'' ''10.0.0.5:80''
     (stub_world (\<lambda>n. script_reply ''ok'')))
   = ((Some (Conn 0), None), 1,
      [EvDial ContextBackground ''unix'' ''/tmp/agent.sock'' 0,
       EvWrite 0 [''connect'', ''org1'', ''10.0.0.5:80'', ''0''], EvRead 0])"
    using C6_DialContext_same_connection
      [where w = "stub_world (\<lambda>n. script_reply ''ok'')" and d = dialer_1
         and ctx = ContextBackground and mapError = mapError_stub and netw = "''tcp''"
         and addr = "''10.0.0.5:80''"]
    by (simp add: sc prod_eq_iff)
  have 2: "observe (dialer_DialContext mapError_stub dialer_1 ContextBackground ''tcp'' ''10.0.0.5:80''
        (stub_world (\<lambda>n. (script_reply ''ok'')\<lparr>dial_res := Some (OpError ''connection refused'')\<rparr>)))
      = ((None, Some (OpError ''connection refused'')), 1,
         [EvDial ContextBackground ''unix'' ''/tmp/agent.sock'' 0])"
    using C6_DialContext_same_connection
      [where w = "stub_world (\<lambda>n. (script_reply ''ok'')\<lparr>dial_res := Some (OpError ''connection refused'')\<rparr>)"
         and d = dialer_1 and ctx = ContextBackground and mapError = mapError_stub
         and netw = "''tcp''" and addr = "''10.0.0.5:80''" and e = "OpError ''connection refused''"]
    by (simp add: sc prod_eq_iff)
  have 3: "observe (dialer_DialContext mapError_stub dialer_1 ContextBackground ''tcp'' ''10.0.0.5:80''
        (stub_world (\<lambda>n. (script_reply ''ok'')\<lparr>write_res := Some (OpError ''broken pipe'')\<rparr>)))
      = ((None, Some (OpError ''broken pipe'')), 1,
         [EvDial ContextBackground ''unix'' ''/tmp/agent.sock'' 0,
          EvWrite 0 [''connect'', ''org1'', ''10.0.0.5:80'', ''0''], EvClose 0])"
    using C6_DialContext_same_connection
      [where w = "stub_world (\<lambda>n. (script_reply ''ok'')\<lparr>write_res := Some (OpError ''broken pipe'')\<rparr>)"
         and d = dialer_1 and ctx = ContextBackground and mapError = mapError_stub
         and netw = "''tcp''" and addr = "''10.0.0.5:80''" and e = "OpError ''broken pipe''"]
    by (simp add: sc prod_eq_iff)
  have 4: "observe (dialer_DialContext mapError_stub dialer_1 ContextBackground ''tcp'' ''10.0.0.5:80''
        (stub_world (\<lambda>n. (script_reply ''ok'')\<lparr>read_res := Inl (OpError ''EOF'')\<rparr>)))
      = ((None, Some (OpError ''EOF'')), 1,
         [EvDial ContextBackground ''unix'' ''/tmp/agent.sock'' 0,
          EvWrite 0 [''connect'', ''org1'', ''10.0.0.5:80'', ''0''], EvRead 0, EvClose 0])"
    using C6_DialContext_same_connection
      [where w = "stub_world (\<lambda>n. (script_reply ''ok'')\<lparr>read_res := Inl (OpError ''EOF'')\<rparr>)"
         and d = dialer_1 and ctx = ContextBackground and mapError = mapError_stub
         and netw = "''tcp''" and addr = "''10.0.0.5:80''" and e = "OpError ''EOF''"]
    by (simp add: sc prod_eq_iff)
  have 5: "observe (dialer_DialContext mapError_stub dialer_1 ContextBackground ''tcp'' ''10.0.0.5:80''
        (stub_world (\<lambda>n. script_reply ''tunnel unavailable'')))
      = ((None, Some (TunnelError ''tunnel unavailable'')), 1,
         [EvDial ContextBackground ''unix'' ''/tmp/agent.sock'' 0,
          EvWrite 0 [''connect'', ''org1'', ''10.0.0.5:80'', ''0''], EvRead 0, EvClose 0])"
    using C6_DialContext_same_connection
      [where w = "stub_world (\<lambda>n. script_reply ''tunnel unavailable'')"
         and d = dialer_1 and ctx = ContextBackground and mapError = mapError_stub
         and netw = "''tcp''" and addr = "''10.0.0.5:80''" and data = "''tunnel unavailable''"]
    by (simp add: sc prod_eq_iff)
  from 1 2 3 4 5 show ?thesis by blast
qed

subsection \<open>The timeout sent with connect\<close>




subsection \<open>The context a verb runs under\<close>

text \<open>
  C4 as the specification states it fails: \<open>Ping\<close> called with the background context
  dials under the background context, which carries no timeout at all, not the timeout
  of 2 seconds.
\<close>

theorem C4_Ping_without_timeout_counterexample:
  "map ctx_timeout
     (dial_contexts
        (trace (snd (Client_Ping (ping_reply zero_PingResponse) client_0 ContextBackground
                       (stub_world (\<lambda>n. script_reply ''pong {}''))))))
   = [None]
   \<and> ctx_timeout (WithTimeout ContextBackground timeout) = Some timeout"
  by (simp add: verb_defs io_defs stub_defs)

text \<open>What each verb adds to the contexts dialled under and to the contexts watched.\<close>

lemma Kill_trace:
  "snd (Client_Kill c ctx w)
   = snd (Client_do c ctx ()
            (\<lambda>conn w0. case proto_Write conn ''kill'' [] w0 of (err, w1) \<Rightarrow> (((), err), w1)) w)"
  by (simp add: Client_Kill_def snd_drop_unit)

lemma Probe_trace:
  "snd (Client_Probe c ctx slug w)
   = snd (Client_do c ctx ()
            (\<lambda>conn w0.
               case proto_Write conn ''probe'' [slug] w0 of
                 (Some e, w1) \<Rightarrow> (((), Some e), w1)
               | (None, w1) \<Rightarrow>
                   (case proto_Read conn w1 of
                      (Inl e, w2) \<Rightarrow> (((), Some e), w2)
                    | (Inr data, w2) \<Rightarrow>
                        if data \<noteq> ''ok'' then (((), Some (ErrorString data)), w2)
                        else (((), None), w2))) w)"
  by (simp add: Client_Probe_def snd_drop_unit)

lemma verbs_dial_contexts:
  "dial_contexts (trace (snd (Client_Ping decp c ctx w))) = dial_contexts (trace w) @ [ctx]"
  "dial_contexts (trace (snd (Client_Kill c ctx w))) = dial_contexts (trace w) @ [ctx]"
  "dial_contexts (trace (snd (Client_Probe c ctx slug w))) = dial_contexts (trace w) @ [ctx]"
  "dial_contexts (trace (snd (Client_Resolve c ctx slug host w)))
     = dial_contexts (trace w) @ [ctx]"
  "dial_contexts (trace (snd (Client_Establish dece c ctx slug w)))
     = dial_contexts (trace w) @ [ctx]"
  "dial_contexts (trace (snd (Client_Instances deci zero c ctx org app w)))
     = dial_contexts (trace w) @ [ctx]"
  unfolding Kill_trace Probe_trace Client_Ping_def Client_Resolve_def Client_Establish_def
    Client_Instances_def
  by (rule do_dial_contexts, simp add: io_defs dial_contexts_append split: split_all)+

lemma verbs_watch_contexts:
  "watch_contexts (trace (snd (Client_Ping decp c ctx w)))
     = watch_contexts (trace w)
       @ (if dial_res (daemon w (next_conn w)) = None then [WithCancel ctx] else [])"
  "watch_contexts (trace (snd (Client_Kill c ctx w)))
     = watch_contexts (trace w)
       @ (if dial_res (daemon w (next_conn w)) = None then [WithCancel ctx] else [])"
  "watch_contexts (trace (snd (Client_Probe c ctx slug w)))
     = watch_contexts (trace w)
       @ (if dial_res (daemon w (next_conn w)) = None then [WithCancel ctx] else [])"
  "watch_contexts (trace (snd (Client_Resolve c ctx slug host w)))
     = watch_contexts (trace w)
       @ (if dial_res (daemon w (next_conn w)) = None then [WithCancel ctx] else [])"
  "watch_contexts (trace (snd (Client_Establish dece c ctx slug w)))
     = watch_contexts (trace w)
       @ (if dial_res (daemon w (next_conn w)) = None then [WithCancel ctx] else [])"
  "watch_contexts (trace (snd (Client_Instances deci zero c ctx org app w)))
     = watch_contexts (trace w)
       @ (if dial_res (daemon w (next_conn w)) = None then [WithCancel ctx] else [])"
  unfolding Kill_trace Probe_trace Client_Ping_def Client_Resolve_def Client_Establish_def
    Client_Instances_def
  by (rule do_watch_contexts, simp add: io_defs watch_contexts_append split: split_all)+

lemma DialContext_contexts:
  "dial_contexts (trace (snd (dialer_DialContext mapError d ctx netw addr w)))
     = dial_contexts (trace w) @ [ctx]"
  "watch_contexts (trace (snd (dialer_DialContext mapError d ctx netw addr w)))
     = watch_contexts (trace w)"
  by (auto simp: dialer_DialContext_def io_defs Let_def dial_contexts_append
        watch_contexts_append split: split_all)

text \<open>
  C4, as the code has it. Every verb (ping, kill, probe, resolve, connect, establish,
  instances) dials once, under the context its caller passed, and nothing adds a timeout
  to it; the fixed timeout of 2 seconds is applied only by \<open>Client.dial\<close>, which no verb
  calls. After a successful dial, ping, kill, probe, resolve, establish and instances
  run under the watcher of the executor, which waits on the caller's context wrapped by
  \<open>WithCancel\<close>, a context with the timeout of the caller's and no other; after a
  failed dial there is no watcher. The handshake of connect has no watcher.
\<close>

theorem C4_verbs_run_under_caller_context:
  "let watched = (if dial_res (daemon w (next_conn w)) = None then [WithCancel ctx] else [])
   in dial_contexts (trace (snd (Client_Ping decp c ctx w))) = dial_contexts (trace w) @ [ctx]
    \<and> dial_contexts (trace (snd (Client_Kill c ctx w))) = dial_contexts (trace w) @ [ctx]
    \<and> dial_contexts (trace (snd (Client_Probe c ctx slug w))) = dial_contexts (trace w) @ [ctx]
    \<and> dial_contexts (trace (snd (Client_Resolve c ctx slug host w)))
        = dial_contexts (trace w) @ [ctx]
    \<and> dial_contexts (trace (snd (dialer_DialContext mapError d ctx netw addr w)))
        = dial_contexts (trace w) @ [ctx]
    \<and> dial_contexts (trace (snd (Client_Establish dece c ctx slug w)))
        = dial_contexts (trace w) @ [ctx]
    \<and> dial_contexts (trace (snd (Client_Instances deci zero c ctx org app w)))
        = dial_contexts (trace w) @ [ctx]
    \<and> watch_contexts (trace (snd (Client_Ping decp c ctx w)))
        = watch_contexts (trace w) @ watched
    \<and> watch_contexts (trace (snd (Client_Kill c ctx w)))
        = watch_contexts (trace w) @ watched
    \<and> watch_contexts (trace (snd (Client_Probe c ctx slug w)))
        = watch_contexts (trace w) @ watched
    \<and> watch_contexts (trace (snd (Client_Resolve c ctx slug host w)))
        = watch_contexts (trace w) @ watched
    \<and> watch_contexts (trace (snd (Client_Establish dece c ctx slug w)))
        = watch_contexts (trace w) @ watched
    \<and> watch_contexts (trace (snd (Client_Instances deci zero c ctx org app w)))
        = watch_contexts (trace w) @ watched
    \<and> watch_contexts (trace (snd (dialer_DialContext mapError d ctx netw addr w)))
        = watch_contexts (trace w)
    \<and> ctx_timeout (WithCancel ctx) = ctx_timeout ctx
    \<and> dial_contexts (trace (snd (Client_dial c w)))
        = dial_contexts (trace w) @ [WithTimeout ContextBackground timeout]
    \<and> timeout = 2000000000"
proof -
  have dial: "dial_contexts (trace (snd (Client_dial c w)))
        = dial_contexts (trace w) @ [WithTimeout ContextBackground timeout]"
    by (simp add: Client_dial_def io_defs Let_def dial_contexts_append split: split_all)
  have two: "timeout = 2000000000"
    by (simp add: duration_defs)
  from dial two show ?thesis
    unfolding Let_def
    by (simp only: verbs_dial_contexts verbs_watch_contexts DialContext_contexts
          ctx_timeout.simps simp_thms)
qed

subsection \<open>The lifecycle negotiator\<close>

lemmas negotiator_defs =
  PruneInvalidPeers_def DefaultClient_def newClient_def StartDaemon_def terminal_Warn_def
  terminal_Debug_def time_Sleep_def Version_EQ_def version_msg_def Version_String_def
  decimal.simps kill_refused_def ping_same_def ping_foreground_def ping_background_def
  mismatch_msg_def

text \<open>
  C5 as the specification states it fails in its last case: with a daemon of another
  version that runs in the background, \<open>Establish\<close> calls \<open>Kill\<close>, but when \<open>Kill\<close>
  fails (here the third connection is refused) it neither waits nor starts a daemon: it
  warns and returns the error of \<open>Kill\<close>, wrapped, and no client.
\<close>

theorem C5_kill_failure_counterexample:
  "observe (Establish (ping_reply ping_background) ContextBackground (stub_world kill_refused))
   = ((None, Some (WithMessage (OpError ''connection refused'') ''kill failed'')), 3,
      [EvPrune,
       EvDial ContextBackground ''unix'' ''/tmp/agent.sock'' 0,
       EvWatch (WithCancel ContextBackground) 0, EvWrite 0 [''ping''],
       EvRead 0, EvClose 0,
       EvDial ContextBackground ''unix'' ''/tmp/agent.sock'' 1,
       EvWatch (WithCancel ContextBackground) 1, EvWrite 1 [''ping''],
       EvRead 1, EvClose 1,
       EvDebug mismatch_msg, EvDebug ''stopping agent'',
       EvDial ContextBackground ''unix'' ''/tmp/agent.sock'' 2,
       EvWarn mismatch_msg])"
  by (simp add: Establish_def negotiator_defs verb_defs io_defs stub_defs observe_def Let_def)

text \<open>
  C5, as the code has it. Let the pruning succeed, \<open>DefaultClient\<close> return the client
  \<open>c\<close> and the \<open>Ping\<close> of \<open>Establish\<close> return \<open>resp\<close>; up to there two frames were
  written, both \<open>ping\<close>. Then: with equal versions \<open>Establish\<close> returns \<open>c\<close> and does
  nothing more; with differing versions and a daemon not in the background it warns
  and returns \<open>c\<close>, doing nothing more; with differing versions and a daemon in the
  background it calls \<open>Kill\<close>, and when \<open>Kill\<close> succeeds (its frame \<open>kill\<close> was written)
  it sleeps one second and returns what \<open>StartDaemon\<close> returns, while when \<open>Kill\<close> fails
  it warns and returns no client and the error of \<open>Kill\<close> wrapped as \<open>kill failed\<close>.
\<close>

theorem C5_negotiator_branches:
  assumes "PruneInvalidPeers ctx w = (None, w1)"
    and "DefaultClient dec ctx w1 = ((Some c, None), w2)"
    and "Client_Ping dec c ctx w2 = ((resp, None), w3)"
    and "msg = version_msg (buildinfo_Version w3) (Version resp)"
    and "wk = terminal_Debug ''stopping agent'' (terminal_Debug msg w3)"
  shows
    "frames (trace w3) = frames (trace w) @ [[''ping''], [''ping'']]
     \<and> (Version_EQ (buildinfo_Version w3) (Version resp) \<longrightarrow>
          Establish dec ctx w = ((Some c, None), w3))
     \<and> (\<not> Version_EQ (buildinfo_Version w3) (Version resp) \<and> \<not> Background resp \<longrightarrow>
          Establish dec ctx w = ((Some c, None), terminal_Warn msg w3))
     \<and> (\<not> Version_EQ (buildinfo_Version w3) (Version resp) \<and> Background resp
          \<and> Client_Kill c ctx wk = (None, w4) \<longrightarrow>
          Establish dec ctx w = StartDaemon ctx (time_Sleep (1 * Second) w4)
          \<and> frames (trace w4) = frames (trace w3) @ [[''kill'']])
     \<and> (\<not> Version_EQ (buildinfo_Version w3) (Version resp) \<and> Background resp
          \<and> Client_Kill c ctx wk = (Some e, w4) \<longrightarrow>
          Establish dec ctx w
            = ((None, Some (WithMessage e ''kill failed'')), terminal_Warn msg w4))"
proof -
  from assms(1) have "frames (trace w1) = frames (trace w)"
    by (auto simp: PruneInvalidPeers_def log_event_def frames_append)
  moreover from assms(2) have "frames (trace w2) = frames (trace w1) @ [[''ping'']]"
    by (rule DefaultClient_ok_frames)
  moreover from assms(3) have "frames (trace w3) = frames (trace w2) @ [[''ping'']]"
    by (rule Ping_ok_frames)
  ultimately have pings: "frames (trace w3) = frames (trace w) @ [[''ping''], [''ping'']]"
    by simp
  have killed: "frames (trace w4) = frames (trace w3) @ [[''kill'']]"
    if "Client_Kill c ctx wk = (None, w4)"
  proof -
    from that have "frames (trace w4) = frames (trace wk) @ [[''kill'']]"
      by (rule Kill_ok_frames)
    with assms(5) show ?thesis
      by (simp add: terminal_Debug_def log_event_def frames_append)
  qed
  from assms pings killed show ?thesis
    by (simp add: Establish_def Let_def)
qed

theorem C5_negotiator_branches_witness:
  "observe (Establish (ping_reply ping_same) ContextBackground
              (stub_world (\<lambda>n. script_reply ''pong {}'')))
   = ((Some client_0, None), 2,
      [EvPrune,
       EvDial ContextBackground ''unix'' ''/tmp/agent.sock'' 0,
       EvWatch (WithCancel ContextBackground) 0, EvWrite 0 [''ping''],
       EvRead 0, EvClose 0,
       EvDial ContextBackground ''unix'' ''/tmp/agent.sock'' 1,
       EvWatch (WithCancel ContextBackground) 1, EvWrite 1 [''ping''],
       EvRead 1, EvClose 1])
   \<and> observe (Establish (ping_reply ping_foreground) ContextBackground
              (stub_world (\<lambda>n. script_reply ''pong {}'')))
   = ((Some client_0, None), 2,
      [EvPrune,
       EvDial ContextBackground ''unix'' ''/tmp/agent.sock'' 0,
       EvWatch (WithCancel ContextBackground) 0, EvWrite 0 [''ping''],
       EvRead 0, EvClose 0,
       EvDial ContextBackground ''unix'' ''/tmp/agent.sock'' 1,
       EvWatch (WithCancel ContextBackground) 1, EvWrite 1 [''ping''],
       EvRead 1, EvClose 1,
       EvWarn mismatch_msg])
   \<and> observe (Establish (ping_reply ping_background) ContextBackground
              (stub_world (\<lambda>n. script_reply ''pong {}'')))
   = ((Some client_0, None), 3,
      [EvPrune,
       EvDial ContextBackground ''unix'' ''/tmp/agent.sock'' 0,
       EvWatch (WithCancel ContextBackground) 0, EvWrite 0 [''ping''],
       EvRead 0, EvClose 0,
       EvDial ContextBackground ''unix'' ''/tmp/agent.sock'' 1,
       EvWatch (WithCancel ContextBackground) 1, EvWrite 1 [''ping''],
       EvRead 1, EvClose 1,
       EvDebug mismatch_msg, EvDebug ''stopping agent'',
       EvDial ContextBackground ''unix'' ''/tmp/agent.sock'' 2,
       EvWatch (WithCancel ContextBackground) 2, EvWrite 2 [''kill''],
       EvClose 2, EvSleep 1000000000, EvStartDaemon ContextBackground])
   \<and> fst (Establish (ping_reply ping_background) ContextBackground (stub_world kill_refused))
   = (None, Some (WithMessage (OpError ''connection refused'') ''kill failed''))"
proof -
  note ev = negotiator_defs verb_defs io_defs stub_defs observe_def Let_def duration_defs
  let ?ctx = ContextBackground
  let ?w = "stub_world (\<lambda>n. script_reply ''pong {}'')"
  let ?w1 = "snd (PruneInvalidPeers ?ctx ?w)"
  have p: "PruneInvalidPeers ?ctx ?w = (None, ?w1)"
    by (simp add: ev)
  have same: "observe (Establish (ping_reply ping_same) ?ctx ?w)
   = ((Some client_0, None), 2,
      [EvPrune,
       EvDial ContextBackground ''unix'' ''/tmp/agent.sock'' 0,
       EvWatch (WithCancel ContextBackground) 0, EvWrite 0 [''ping''],
       EvRead 0, EvClose 0,
       EvDial ContextBackground ''unix'' ''/tmp/agent.sock'' 1,
       EvWatch (WithCancel ContextBackground) 1, EvWrite 1 [''ping''],
       EvRead 1, EvClose 1])"
  proof -
    let ?dec = "ping_reply ping_same"
    let ?w2 = "snd (DefaultClient ?dec ?ctx ?w1)"
    let ?w3 = "snd (Client_Ping ?dec client_0 ?ctx ?w2)"
    have d: "DefaultClient ?dec ?ctx ?w1 = ((Some client_0, None), ?w2)"
      by (simp add: ev)
    have g: "Client_Ping ?dec client_0 ?ctx ?w2 = ((ping_same, None), ?w3)"
      by (simp add: ev)
    have "Version_EQ (buildinfo_Version ?w3) (Version ping_same)"
      by (simp add: ev)
    with C5_negotiator_branches [OF p d g refl refl]
    have "Establish ?dec ?ctx ?w = ((Some client_0, None), ?w3)"
      by blast
    then show ?thesis
      by (simp add: ev)
  qed
  have fg: "observe (Establish (ping_reply ping_foreground) ?ctx ?w)
   = ((Some client_0, None), 2,
      [EvPrune,
       EvDial ContextBackground ''unix'' ''/tmp/agent.sock'' 0,
       EvWatch (WithCancel ContextBackground) 0, EvWrite 0 [''ping''],
       EvRead 0, EvClose 0,
       EvDial ContextBackground ''unix'' ''/tmp/agent.sock'' 1,
       EvWatch (WithCancel ContextBackground) 1, EvWrite 1 [''ping''],
       EvRead 1, EvClose 1,
       EvWarn mismatch_msg])"
  proof -
    let ?dec = "ping_reply ping_foreground"
    let ?w2 = "snd (DefaultClient ?dec ?ctx ?w1)"
    let ?w3 = "snd (Client_Ping ?dec client_0 ?ctx ?w2)"
    have d: "DefaultClient ?dec ?ctx ?w1 = ((Some client_0, None), ?w2)"
      by (simp add: ev)
    have g: "Client_Ping ?dec client_0 ?ctx ?w2 = ((ping_foreground, None), ?w3)"
      by (simp add: ev)
    have "\<not> Version_EQ (buildinfo_Version ?w3) (Version ping_foreground)
          \<and> \<not> Background ping_foreground"
      by (simp add: ev)
    with C5_negotiator_branches [OF p d g refl refl]
    have "Establish ?dec ?ctx ?w
          = ((Some client_0, None),
             terminal_Warn (version_msg (buildinfo_Version ?w3) (Version ping_foreground)) ?w3)"
      by blast
    then show ?thesis
      by (simp add: ev)
  qed
  have bg: "observe (Establish (ping_reply ping_background) ?ctx ?w)
   = ((Some client_0, None), 3,
      [EvPrune,
       EvDial ContextBackground ''unix'' ''/tmp/agent.sock'' 0,
       EvWatch (WithCancel ContextBackground) 0, EvWrite 0 [''ping''],
       EvRead 0, EvClose 0,
       EvDial ContextBackground ''unix'' ''/tmp/agent.sock'' 1,
       EvWatch (WithCancel ContextBackground) 1, EvWrite 1 [''ping''],
       EvRead 1, EvClose 1,
       EvDebug mismatch_msg, EvDebug ''stopping agent'',
       EvDial ContextBackground ''unix'' ''/tmp/agent.sock'' 2,
       EvWatch (WithCancel ContextBackground) 2, EvWrite 2 [''kill''],
       EvClose 2, EvSleep 1000000000, EvStartDaemon ContextBackground])"
  proof -
    let ?dec = "ping_reply ping_background"
    let ?w2 = "snd (DefaultClient ?dec ?ctx ?w1)"
    let ?w3 = "snd (Client_Ping ?dec client_0 ?ctx ?w2)"
    let ?msg = "version_msg (buildinfo_Version ?w3) (Version ping_background)"
    let ?wk = "terminal_Debug ''stopping agent'' (terminal_Debug ?msg ?w3)"
    let ?w4 = "snd (Client_Kill client_0 ?ctx ?wk)"
    have d: "DefaultClient ?dec ?ctx ?w1 = ((Some client_0, None), ?w2)"
      by (simp add: ev)
    have g: "Client_Ping ?dec client_0 ?ctx ?w2 = ((ping_background, None), ?w3)"
      by (simp add: ev)
    have "\<not> Version_EQ (buildinfo_Version ?w3) (Version ping_background)
          \<and> Background ping_background \<and> Client_Kill client_0 ?ctx ?wk = (None, ?w4)"
      by (simp add: ev)
    with C5_negotiator_branches [OF p d g refl refl, where ?w4.0 = ?w4]
    have "Establish ?dec ?ctx ?w = StartDaemon ?ctx (time_Sleep (1 * Second) ?w4)"
      by blast
    then show ?thesis
      by (simp add: ev)
  qed
  have refused: "fst (Establish (ping_reply ping_background) ?ctx (stub_world kill_refused))
   = (None, Some (WithMessage (OpError ''connection refused'') ''kill failed''))"
  proof -
    let ?dec = "ping_reply ping_background"
    let ?v = "stub_world kill_refused"
    let ?v1 = "snd (PruneInvalidPeers ?ctx ?v)"
    let ?w2 = "snd (DefaultClient ?dec ?ctx ?v1)"
    let ?w3 = "snd (Client_Ping ?dec client_0 ?ctx ?w2)"
    let ?msg = "version_msg (buildinfo_Version ?w3) (Version ping_background)"
    let ?wk = "terminal_Debug ''stopping agent'' (terminal_Debug ?msg ?w3)"
    let ?w4 = "snd (Client_Kill client_0 ?ctx ?wk)"
    have q: "PruneInvalidPeers ?ctx ?v = (None, ?v1)"
      by (simp add: ev)
    have d: "DefaultClient ?dec ?ctx ?v1 = ((Some client_0, None), ?w2)"
      by (simp add: ev)
    have g: "Client_Ping ?dec client_0 ?ctx ?w2 = ((ping_background, None), ?w3)"
      by (simp add: ev)
    have "\<not> Version_EQ (buildinfo_Version ?w3) (Version ping_background)
          \<and> Background ping_background
          \<and> Client_Kill client_0 ?ctx ?wk = (Some (OpError ''connection refused''), ?w4)"
      by (simp add: ev)
    with C5_negotiator_branches
           [OF q d g refl refl, where ?w4.0 = ?w4 and e = "OpError ''connection refused''"]
    have "Establish ?dec ?ctx ?v
          = ((None, Some (WithMessage (OpError ''connection refused'') ''kill failed'')),
             terminal_Warn ?msg ?w4)"
      by blast
    then show ?thesis
      by simp
  qed
  from same fg bg refused show ?thesis
    by blast
qed

subsection \<open>Establish and the construction of the dialer\<close>

text \<open>
  C3. A payload \<open>ok\<close> followed by a JSON object should give a decoded response and a
  nil error. It does not: \<open>Establish\<close> hands the whole payload, prefix included, to
  \<open>json.Unmarshal\<close> (\<open>Ping\<close>, \<open>Resolve\<close> and \<open>Instances\<close> drop the prefix first), and
  no JSON text begins with \<open>o\<close>; the error of the decoding is then replaced by the
  executor, so the call returns no response and \<open>context.Canceled\<close>, even with a
  decoder that accepts any JSON text. A payload without the prefix gives no response
  and, again through the executor, \<open>context.Canceled\<close> rather than an error whose text
  is the payload.
\<close>

theorem C3_Establish_ok_payload_rejected:
  "fst (Client_Establish (establish_reply tunnel_1) client_0 ContextBackground ''org1''
          (stub_world (\<lambda>n. script_reply ''ok {}'')))
     = (None, Some Canceled)
   \<and> fst (Client_Establish (establish_reply tunnel_1) client_0 ContextBackground ''org1''
          (stub_world (\<lambda>n. script_reply ''tunnel unavailable'')))
     = (None, Some Canceled)"
  by (simp add: verb_defs io_defs stub_defs)

text \<open>
  C1. \<open>Client.Dialer\<close> should return a dialer exactly when \<open>Establish\<close> succeeds, and
  no dialer with the error when it fails. The branch is inverted: on a failed
  \<open>Establish\<close>, whose response is nil, building the dialer dereferences nil and the
  call panics; on a successful \<open>Establish\<close> no dialer is returned, with a nil error.
\<close>

theorem C1_Dialer_branch_inverted:
  "fst (Client_Dialer (establish_reply tunnel_1) client_0 ContextBackground org_1
          (stub_world (\<lambda>n. script_reply ''tunnel unavailable'')))
     = Panics ''invalid memory address or nil pointer dereference''
   \<and> Dialer_of client_0 org_1 (Some tunnel_1, None) = Returns (None, None)"
  by (simp add: Client_Dialer_def Dialer_of_def verb_defs io_defs stub_defs)

text \<open>
  Beyond the scenarios: \<open>Client.Establish\<close> never succeeds, whatever the daemon
  replies and whatever the JSON decoder accepts. A payload with the prefix \<open>ok \<close>
  begins with \<open>o\<close> and is refused by \<open>json.Unmarshal\<close>; every other path returns an
  error as well. So the response is always nil and the error never is.
\<close>

lemma hasPrefix_None: "hasPrefix data p = None \<Longrightarrow> take (length p) data = p"
  by (simp add: hasPrefix_def split: if_splits)

lemma ok_payload_not_json:
  assumes "hasPrefix data ''ok '' = None"
  shows "\<exists>e. json_Unmarshal dec data v = (Some e, v)"
proof -
  from assms have "take (length ''ok '') data = ''ok ''"
    by (rule hasPrefix_None)
  then obtain rest where "data = CHR ''o'' # rest"
    by (cases data) auto
  then show ?thesis
    by (simp add: json_Unmarshal_def json_isSpace_def json_begins_value_def)
qed

lemma do_dial_error:
  "dial_res (daemon w (next_conn w)) = Some e \<Longrightarrow> fst (Client_do c parent r0 fn w) = (r0, Some e)"
  by (simp add: Client_do_def Client_dialContext_def Let_def)

lemma do_worker_error:
  assumes "dial_res (daemon w (next_conn w)) = None"
    and "fn (Conn (next_conn w))
           (log_event (EvWatch (WithCancel parent) (next_conn w))
              (log_event (EvDial parent (network c) (address c) (next_conn w))
                 (w\<lparr>next_conn := Suc (next_conn w)\<rparr>)))
         = ((r, Some e), w2)"
  shows "fst (Client_do c parent r0 fn w)
         = (r, ctx_Err_after (parent_done (daemon w (next_conn w))))"
  using assms
  by (simp add: Client_do_def Client_dialContext_def Conn_Close_def ctx_Err_after_def Let_def
        split: option.splits)

lemma Establish_worker_fails:
  "\<exists>e w2.
     (case proto_Write conn ''establish'' [slug] w0 of
        (Some e, w1) \<Rightarrow> ((None, Some e), w1)
      | (None, w1) \<Rightarrow>
          (case proto_Read conn w1 of
             (Inl e, w2) \<Rightarrow> ((None, Some e), w2)
           | (Inr data, w2) \<Rightarrow>
               (case hasPrefix data ''ok '' of
                  Some e \<Rightarrow> ((None, Some (ErrorString data)), w2)
                | None \<Rightarrow>
                    (case json_Unmarshal dec data \<lparr>WireGuardState = None, TunnelConfig = None\<rparr> of
                       (Some e, res) \<Rightarrow> ((None, Some e), w2)
                     | (None, res) \<Rightarrow> ((Some res, None), w2)))))
     = ((None :: EstablishResponse option, Some e), w2)"
proof (cases "write_res (daemon w0 (conn_id conn))")
  case (Some e)
  then show ?thesis
    by (simp add: proto_Write_def)
next
  case None
  show ?thesis
  proof (cases "read_res (daemon w0 (conn_id conn))")
    case (Inl e)
    with None show ?thesis
      by (simp add: proto_Write_def proto_Read_def log_event_def)
  next
    case (Inr data)
    show ?thesis
    proof (cases "hasPrefix data ''ok ''")
      case (Some e)
      with None Inr show ?thesis
        by (simp add: proto_Write_def proto_Read_def log_event_def)
    next
      case pre: None
      then have
        "\<exists>e. json_Unmarshal dec data \<lparr>WireGuardState = None, TunnelConfig = None\<rparr>
             = (Some e, \<lparr>WireGuardState = None, TunnelConfig = None\<rparr>)"
        by (rule ok_payload_not_json)
      then obtain e where
        "json_Unmarshal dec data \<lparr>WireGuardState = None, TunnelConfig = None\<rparr>
         = (Some e, \<lparr>WireGuardState = None, TunnelConfig = None\<rparr>)"
        ..
      with None Inr pre show ?thesis
        by (simp add: proto_Write_def proto_Read_def log_event_def)
    qed
  qed
qed

lemma Establish_never_succeeds:
  "fst (fst (Client_Establish dec c ctx slug w)) = None
   \<and> snd (fst (Client_Establish dec c ctx slug w)) \<noteq> None"
proof (cases "dial_res (daemon w (next_conn w))")
  case (Some e)
  then show ?thesis
    unfolding Client_Establish_def by (simp add: do_dial_error)
next
  case None
  let ?w0 = "log_event (EvWatch (WithCancel ctx) (next_conn w))
               (log_event (EvDial ctx (network c) (address c) (next_conn w))
                  (w\<lparr>next_conn := Suc (next_conn w)\<rparr>))"
  obtain e w2 where
    "(case proto_Write (Conn (next_conn w)) ''establish'' [slug] ?w0 of
        (Some e, w1) \<Rightarrow> ((None, Some e), w1)
      | (None, w1) \<Rightarrow>
          (case proto_Read (Conn (next_conn w)) w1 of
             (Inl e, w2) \<Rightarrow> ((None, Some e), w2)
           | (Inr data, w2) \<Rightarrow>
               (case hasPrefix data ''ok '' of
                  Some e \<Rightarrow> ((None, Some (ErrorString data)), w2)
                | None \<Rightarrow>
                    (case json_Unmarshal dec data \<lparr>WireGuardState = None, TunnelConfig = None\<rparr> of
                       (Some e, res) \<Rightarrow> ((None, Some e), w2)
                     | (None, res) \<Rightarrow> ((Some res, None), w2)))))
     = ((None :: EstablishResponse option, Some e), w2)"
    using Establish_worker_fails [where conn = "Conn (next_conn w)" and slug = slug and ?w0.0 = ?w0 and dec = dec]
    by (elim exE)
  with None have
    "fst (Client_Establish dec c ctx slug w)
     = (None, ctx_Err_after (parent_done (daemon w (next_conn w))))"
    unfolding Client_Establish_def by (rule do_worker_error)
  then show ?thesis
    by (simp add: ctx_Err_after_def split: option.splits)
qed

text \<open>Hence \<open>Client.Dialer\<close> panics on every call: \<open>Establish\<close> always returns an
  error and a nil response, and the inverted branch then reads through the nil
  response.\<close>

lemma Dialer_always_panics:
  "fst (Client_Dialer dec c ctx org w)
   = Panics ''invalid memory address or nil pointer dereference''"
proof -
  obtain er err w1 where r: "Client_Establish dec c ctx (Slug org) w = ((er, err), w1)"
    by (metis prod.exhaust)
  with Establish_never_succeeds [of dec c ctx "Slug org" w]
  have "er = None" and "err \<noteq> None"
    by simp_all
  with r show ?thesis
    by (simp add: Client_Dialer_def Dialer_of_def)
qed

subsection \<open>The readiness loops\<close>

text \<open>
  The loop of \<open>WaitForTunnel\<close>, over any call in the place of \<open>Probe\<close>: when the calls
  numbered 0 to n - 1 give a \<open>TunnelError\<close> and call n does not, the loop returns the
  outcome, and the world, of call n; and it returns in no other way, so it never
  returns when every outcome is a \<open>TunnelError\<close>. The loop of \<open>WaitForHost\<close> likewise,
  with its two retried kinds. The loops themselves are as the specification describes
  them; what follows them shows what the methods do with the outcomes that
  \<open>Client.Probe\<close> and \<open>Client.Resolve\<close> can have.
\<close>

lemma WaitForTunnel_loop_first_other_outcome:
  "(\<forall>i<n. IsTunnelError (fst (probe (wait_world probe ctx w i)))) \<Longrightarrow>
   \<not> IsTunnelError (fst (probe (wait_world probe ctx w n))) \<Longrightarrow>
   WaitForTunnel_loop probe ctx w = Some (probe (wait_world probe ctx w n))"
proof (induction n arbitrary: w)
  case 0
  obtain err w1 where p: "probe w = (err, w1)" by (cases "probe w")
  with 0 show ?case
    by (simp add: WaitForTunnel_loop_stop)
next
  case (Suc n)
  obtain err w1 where p: "probe w = (err, w1)" by (cases "probe w")
  let ?w' = "pause_For ctx cycle w1"
  from Suc.prems(1) have "IsTunnelError (fst (probe (wait_world probe ctx w 0)))"
    by blast
  with p have first: "IsTunnelError err" by simp
  have "\<forall>i<n. IsTunnelError (fst (probe (wait_world probe ctx ?w' i)))"
  proof (intro allI impI)
    fix i assume "i < n"
    then have "Suc i < Suc n" by simp
    with Suc.prems(1) have "IsTunnelError (fst (probe (wait_world probe ctx w (Suc i))))"
      by blast
    with p show "IsTunnelError (fst (probe (wait_world probe ctx ?w' i)))"
      by simp
  qed
  moreover from Suc.prems(2) p
  have "\<not> IsTunnelError (fst (probe (wait_world probe ctx ?w' n)))"
    by simp
  ultimately have "WaitForTunnel_loop probe ctx ?w' = Some (probe (wait_world probe ctx ?w' n))"
    by (rule Suc.IH)
  with first p show ?case
    by (simp add: WaitForTunnel_loop_retry)
qed


lemma WaitForTunnel_loop_returns_at:
  assumes "WaitForTunnel_loop probe ctx w = Some y"
  shows "\<exists>n. (\<forall>i<n. IsTunnelError (fst (probe (wait_world probe ctx w i))))
             \<and> \<not> IsTunnelError (fst (probe (wait_world probe ctx w n)))
             \<and> y = probe (wait_world probe ctx w n)"
proof (rule WaitForTunnel_loop.raw_induct
         [where P = "\<lambda>probe ctx w y.
            \<exists>n. (\<forall>i<n. IsTunnelError (fst (probe (wait_world probe ctx w i))))
             \<and> \<not> IsTunnelError (fst (probe (wait_world probe ctx w n)))
             \<and> y = probe (wait_world probe ctx w n)", OF _ assms])
  fix loop :: "(world \<Rightarrow> error option \<times> world) \<Rightarrow> Context \<Rightarrow> world \<Rightarrow> (error option \<times> world) option"
  fix probe ctx w y
  assume IH: "\<And>probe ctx w y. loop probe ctx w = Some y \<Longrightarrow>
            \<exists>n. (\<forall>i<n. IsTunnelError (fst (probe (wait_world probe ctx w i))))
             \<and> \<not> IsTunnelError (fst (probe (wait_world probe ctx w n)))
             \<and> y = probe (wait_world probe ctx w n)"
    and step: "(case probe w of
                  (err, w1) \<Rightarrow>
                    if \<not> IsTunnelError err then Some (err, w1)
                    else loop probe ctx (pause_For ctx cycle w1)) = Some y"
  obtain err w1 where p: "probe w = (err, w1)" by (cases "probe w")
  show "\<exists>n. (\<forall>i<n. IsTunnelError (fst (probe (wait_world probe ctx w i))))
             \<and> \<not> IsTunnelError (fst (probe (wait_world probe ctx w n)))
             \<and> y = probe (wait_world probe ctx w n)"
  proof (cases "IsTunnelError err")
    case False
    with step p have "y = (err, w1)" by simp
    with False p have
      "(\<forall>i<0. IsTunnelError (fst (probe (wait_world probe ctx w i))))
       \<and> \<not> IsTunnelError (fst (probe (wait_world probe ctx w 0)))
       \<and> y = probe (wait_world probe ctx w 0)"
      by simp
    then show ?thesis by blast
  next
    case True
    with step p have "loop probe ctx (pause_For ctx cycle w1) = Some y" by simp
    then obtain n where n:
      "\<forall>i<n. IsTunnelError (fst (probe (wait_world probe ctx (pause_For ctx cycle w1) i)))"
      "\<not> IsTunnelError (fst (probe (wait_world probe ctx (pause_For ctx cycle w1) n)))"
      "y = probe (wait_world probe ctx (pause_For ctx cycle w1) n)"
      using IH by blast
    have "\<forall>i<Suc n. IsTunnelError (fst (probe (wait_world probe ctx w i)))"
    proof (intro allI impI)
      fix i assume "i < Suc n"
      show "IsTunnelError (fst (probe (wait_world probe ctx w i)))"
      proof (cases i)
        case 0
        with True p show ?thesis by simp
      next
        case (Suc j)
        with \<open>i < Suc n\<close> have "j < n" by simp
        with n(1) Suc p show ?thesis by simp
      qed
    qed
    moreover from n(2) p
    have "\<not> IsTunnelError (fst (probe (wait_world probe ctx w (Suc n))))" by simp
    moreover from n(3) p have "y = probe (wait_world probe ctx w (Suc n))" by simp
    ultimately show ?thesis by blast
  qed
qed

lemma WaitForTunnel_loop_never_returns:
  assumes "\<forall>n. IsTunnelError (fst (probe (wait_world probe ctx w n)))"
  shows "WaitForTunnel_loop probe ctx w = None"
proof (cases "WaitForTunnel_loop probe ctx w")
  case None
  then show ?thesis .
next
  case (Some y)
  then obtain n where "\<not> IsTunnelError (fst (probe (wait_world probe ctx w n)))"
    using WaitForTunnel_loop_returns_at by blast
  with assms show ?thesis by blast
qed

lemma WaitForHost_loop_first_other_outcome:
  "(\<forall>i<n. IsTunnelError (fst (resolve (wait_world resolve ctx w i)))
          \<or> IsHostNotFoundError (fst (resolve (wait_world resolve ctx w i)))) \<Longrightarrow>
   \<not> IsTunnelError (fst (resolve (wait_world resolve ctx w n))) \<Longrightarrow>
   \<not> IsHostNotFoundError (fst (resolve (wait_world resolve ctx w n))) \<Longrightarrow>
   WaitForHost_loop resolve ctx w = Some (resolve (wait_world resolve ctx w n))"
proof (induction n arbitrary: w)
  case 0
  obtain err w1 where p: "resolve w = (err, w1)" by (cases "resolve w")
  with 0 show ?case
    by (simp add: WaitForHost_loop_stop)
next
  case (Suc n)
  obtain err w1 where p: "resolve w = (err, w1)" by (cases "resolve w")
  let ?w' = "pause_For ctx cycle w1"
  from Suc.prems(1)
  have "IsTunnelError (fst (resolve (wait_world resolve ctx w 0)))
        \<or> IsHostNotFoundError (fst (resolve (wait_world resolve ctx w 0)))"
    by blast
  with p have first: "IsTunnelError err \<or> IsHostNotFoundError err" by simp
  have "\<forall>i<n. IsTunnelError (fst (resolve (wait_world resolve ctx ?w' i)))
             \<or> IsHostNotFoundError (fst (resolve (wait_world resolve ctx ?w' i)))"
  proof (intro allI impI)
    fix i assume "i < n"
    then have "Suc i < Suc n" by simp
    with Suc.prems(1)
    have "IsTunnelError (fst (resolve (wait_world resolve ctx w (Suc i))))
          \<or> IsHostNotFoundError (fst (resolve (wait_world resolve ctx w (Suc i))))"
      by blast
    with p show "IsTunnelError (fst (resolve (wait_world resolve ctx ?w' i)))
                 \<or> IsHostNotFoundError (fst (resolve (wait_world resolve ctx ?w' i)))"
      by simp
  qed
  moreover from Suc.prems(2) p
  have "\<not> IsTunnelError (fst (resolve (wait_world resolve ctx ?w' n)))"
    by simp
  moreover from Suc.prems(3) p
  have "\<not> IsHostNotFoundError (fst (resolve (wait_world resolve ctx ?w' n)))"
    by simp
  ultimately
  have "WaitForHost_loop resolve ctx ?w' = Some (resolve (wait_world resolve ctx ?w' n))"
    by (rule Suc.IH)
  with first p show ?case
    by (simp add: WaitForHost_loop_retry)
qed


text \<open>
  The outcomes of \<open>Client.Probe\<close> and of \<open>Client.Resolve\<close>. Whatever the daemon
  replies, the error returned is the error of the dial, the error of the derived context
  (the caller's context's error, or \<open>Canceled\<close>) or the error of the close, or nil: the
  executor has replaced every error made from the reply. So unless the dial, the
  caller's context or the close itself gives a \<open>TunnelError\<close> (respectively a
  \<open>HostNotFoundError\<close>), the methods return after one call.
\<close>

lemma Probe_outcome:
  "fst (Client_Probe c ctx slug w)
   \<in> {dial_res (daemon w (next_conn w)),
       ctx_Err_after (parent_done (daemon w (next_conn w))),
       close_res (daemon w (next_conn w))}"
  by (auto simp: Client_Probe_def Client_do_def io_defs Let_def split: split_all)

lemma Resolve_outcome:
  "snd (fst (Client_Resolve c ctx slug host w))
   \<in> {dial_res (daemon w (next_conn w)),
       ctx_Err_after (parent_done (daemon w (next_conn w))),
       close_res (daemon w (next_conn w))}"
  by (auto simp: Client_Resolve_def Client_do_def io_defs Let_def split: split_all)

lemma ctx_Err_after_not_classified:
  "\<not> IsTunnelError pd \<Longrightarrow> \<not> IsTunnelError (ctx_Err_after pd)"
  "\<not> IsHostNotFoundError pd \<Longrightarrow> \<not> IsHostNotFoundError (ctx_Err_after pd)"
  by (cases pd; simp add: ctx_Err_after_def)+

lemma WaitForTunnel_one_call:
  assumes "\<not> IsTunnelError (dial_res (daemon w (next_conn w)))"
    and "\<not> IsTunnelError (parent_done (daemon w (next_conn w)))"
    and "\<not> IsTunnelError (close_res (daemon w (next_conn w)))"
  shows "Client_WaitForTunnel c ctx org w = Some (Client_Probe c ctx (Slug org) w)"
proof -
  obtain err w1 where p: "Client_Probe c ctx (Slug org) w = (err, w1)"
    by (cases "Client_Probe c ctx (Slug org) w")
  with Probe_outcome [of c ctx "Slug org" w]
  have "err \<in> {dial_res (daemon w (next_conn w)),
               ctx_Err_after (parent_done (daemon w (next_conn w))),
               close_res (daemon w (next_conn w))}"
    by simp
  with assms ctx_Err_after_not_classified(1) have "\<not> IsTunnelError err"
    by auto
  with p show ?thesis
    by (simp add: Client_WaitForTunnel_def WaitForTunnel_loop_stop)
qed

lemma WaitForHost_one_call:
  assumes "\<not> IsTunnelError (dial_res (daemon w (next_conn w)))"
    and "\<not> IsTunnelError (parent_done (daemon w (next_conn w)))"
    and "\<not> IsTunnelError (close_res (daemon w (next_conn w)))"
    and "\<not> IsHostNotFoundError (dial_res (daemon w (next_conn w)))"
    and "\<not> IsHostNotFoundError (parent_done (daemon w (next_conn w)))"
    and "\<not> IsHostNotFoundError (close_res (daemon w (next_conn w)))"
  shows "Client_WaitForHost c ctx org host w
         = Some (snd (fst (Client_Resolve c ctx (Slug org) host w)),
                 snd (Client_Resolve c ctx (Slug org) host w))"
proof -
  obtain addr err w1 where p: "Client_Resolve c ctx (Slug org) host w = ((addr, err), w1)"
    by (metis prod.exhaust)
  with Resolve_outcome [of c ctx "Slug org" host w]
  have "err \<in> {dial_res (daemon w (next_conn w)),
               ctx_Err_after (parent_done (daemon w (next_conn w))),
               close_res (daemon w (next_conn w))}"
    by simp
  with assms ctx_Err_after_not_classified
  have "\<not> IsTunnelError err" and "\<not> IsHostNotFoundError err"
    by auto
  with p show ?thesis
    by (simp add: Client_WaitForHost_def WaitForHost_loop_stop)
qed



end
